theory Spec2Isabelle
  imports Complex_Main "HOL-Library.Word"
begin

section \<open>Python values used by port\_handler\_can.py\<close>

type_synonym byte = "8 word"

text \<open>
  Exceptions that the modelled code can meet. \<open>SerialException\<close> is the only one that
  \<open>setupPort\<close> catches; \<open>NotOpen\<close> is the explicit failure of the base transport when
  it is used while closed.
\<close>

datatype exn =
    ValueError string
  | ZeroDivisionError
  | SerialException string
  | NotOpen

datatype 'a result = Return 'a | Raise exn

text \<open>
  Python floats are kept abstract: the arithmetic is a parameter (conversion from an
  integer, division, multiplication), so that nothing proved below relies on laws that
  IEEE-754 doubles do not have. The literals \<open>1000.0\<close>, \<open>10.0\<close> and \<open>0.0\<close> are the
  conversions of the integers 1000, 10 and 0. The conversion of an int is taken to
  succeed: Python raises \<open>OverflowError\<close> only for ints beyond the range of a double
  (about \<open>1.8e308\<close>), far above any baud rate; division by zero is modelled where it
  occurs.
\<close>

record 'f float_ops =
  f_of_int :: "int \<Rightarrow> 'f"
  f_div :: "'f \<Rightarrow> 'f \<Rightarrow> 'f"
  f_mul :: "'f \<Rightarrow> 'f \<Rightarrow> 'f"

text \<open>The argument of \<open>writePort\<close>: \<open>bytes\<close> (or \<open>bytearray\<close>), or a \<open>list\<close> of ints.\<close>

datatype packet = Bytes "byte list" | IntList "int list"

text \<open>\<open>bytearray(xs)\<close> on a list of ints: every item must be in \<open>range(0, 256)\<close>.\<close>

definition bytearray :: "int list \<Rightarrow> byte list result" where
  "bytearray xs =
     (if list_all (\<lambda>x. 0 \<le> x \<and> x < 256) xs then Return (map word_of_int xs)
      else Raise (ValueError ''byte must be in range(0, 256)''))"

subsection \<open>String formatting\<close>

definition hex_digit :: "nat \<Rightarrow> char" where
  "hex_digit d = ''0123456789ABCDEF'' ! d"

fun hex_nat :: "nat \<Rightarrow> string" where
  "hex_nat n = (if n < 16 then [hex_digit n] else hex_nat (n div 16) @ [hex_digit (n mod 16)])"

declare hex_nat.simps [simp del]

text \<open>Format spec \<open>X\<close>: upper-case hexadecimal, with a minus sign for negative ints.\<close>

definition format_X :: "int \<Rightarrow> string" where
  "format_X i = (if i < 0 then CHR ''-'' # hex_nat (nat (- i)) else hex_nat (nat i))"

text \<open>Format spec \<open>02X\<close>: the same, zero-padded to a width of two.\<close>

definition format_02X :: "int \<Rightarrow> string" where
  "format_02X i = (let d = format_X i in if length d < 2 then replicate (2 - length d) CHR ''0'' @ d else d)"

text \<open>Decimal digits; below ten, \<open>hex_digit\<close> is the decimal digit.\<close>

fun dec_nat :: "nat \<Rightarrow> string" where
  "dec_nat n = (if n < 10 then [hex_digit n] else dec_nat (n div 10) @ [hex_digit (n mod 10)])"

declare dec_nat.simps [simp del]

text \<open>\<open>str(i)\<close> of an int, as an f-string field without format spec renders it.\<close>

definition str_int :: "int \<Rightarrow> string" where
  "str_int i = (if i < 0 then CHR ''-'' # dec_nat (nat (- i)) else dec_nat (nat i))"

text \<open>\<open>sep.join(parts)\<close>.\<close>

fun str_join :: "string \<Rightarrow> string list \<Rightarrow> string" where
  "str_join sep [] = []"
| "str_join sep [p] = p"
| "str_join sep (p # q # ps) = p @ sep @ str_join sep (q # ps)"

text \<open>The expression \<open>' '.join([f'{b:02X}' for b in packet])\<close> of both debug traces.\<close>

definition hex_dump :: "byte list \<Rightarrow> string" where
  "hex_dump bs = str_join '' '' (map (\<lambda>b. format_02X (uint b)) bs)"

section \<open>The world outside the handler\<close>

text \<open>The pyserial constants that the constructor call names.\<close>

datatype bytesize = FIVEBITS | SIXBITS | SEVENBITS | EIGHTBITS
datatype parity = PARITY_NONE | PARITY_EVEN | PARITY_ODD | PARITY_MARK | PARITY_SPACE
datatype stopbits = STOPBITS_ONE | STOPBITS_ONE_POINT_FIVE | STOPBITS_TWO

text \<open>The keyword arguments of \<open>serial.Serial(...)\<close>; \<open>timeout = None\<close> would block.\<close>

record serial_settings =
  port :: string
  ser_baudrate :: int
  ser_bytesize :: bytesize
  ser_parity :: parity
  ser_stopbits :: stopbits
  timeout :: "int option"

text \<open>
  A \<open>serial.Serial\<close> object: its settings, whether it is open, the bytes waiting in the
  receive buffer, and how many bytes the medium takes on a write at the moment.
\<close>

record channel =
  settings :: serial_settings
  chan_open :: bool
  rx :: "byte list"
  tx_room :: nat

text \<open>Every call that reaches the underlying channel is recorded, in order.\<close>

datatype io_event =
    IoOpen serial_settings
  | IoResetInput
  | IoClose
  | IoRead int
  | IoWrite "byte list"

record world =
  stdout :: "string list"
  io_log :: "io_event list"

definition print :: "world \<Rightarrow> string \<Rightarrow> world" where
  "print w line = w\<lparr>stdout := stdout w @ [line]\<rparr>"

text \<open>
  What the operating system answers when \<open>serial.Serial(...)\<close> tries to claim the
  device: the device is granted (with whatever bytes are already buffered and the room
  it has for writes), the claim fails with \<open>SerialException\<close> (device missing, busy, no
  permission), or a parameter is refused with \<open>ValueError\<close>.
\<close>

datatype claim =
    Granted "byte list" nat
  | Refused string
  | Rejected string

definition serial_Serial :: "serial_settings \<Rightarrow> claim \<Rightarrow> channel result" where
  "serial_Serial cfg c =
     (case c of
        Granted stale room \<Rightarrow> Return \<lparr>settings = cfg, chan_open = True, rx = stale, tx_room = room\<rparr>
      | Refused msg \<Rightarrow> Raise (SerialException msg)
      | Rejected msg \<Rightarrow> Raise (ValueError msg))"

definition reset_input_buffer :: "channel \<Rightarrow> channel" where
  "reset_input_buffer c = c\<lparr>rx := []\<rparr>"

section \<open>The base transport (port\_handler.py)\<close>

definition LATENCY_TIMER :: int where "LATENCY_TIMER = 16"
definition DEFAULT_BAUDRATE :: int where "DEFAULT_BAUDRATE = 1000000"
definition DEFAULT_CAN_ID :: int where "DEFAULT_CAN_ID = 0x60"
definition CAN_MAX_DATA_SIZE :: nat where "CAN_MAX_DATA_SIZE = 8"
definition CAN_EXTENDED_ID :: int where "CAN_EXTENDED_ID = 0x80000000"

record 'f port_handler =
  is_open :: bool
  baudrate :: int
  tx_time_per_byte :: 'f
  port_name :: string
  ser :: "channel option"

text \<open>
  Modelled from the spec: \<open>PortHandler.__init__\<close> of port\_handler.py, which is not among
  the sources. A transport is constructed closed, with its channel identifier, without
  a channel handle. The spec gives no initial baud rate and no initial timing value;
  the module's \<open>DEFAULT_BAUDRATE\<close> and \<open>0.0\<close> stand in, and no theorem below depends on
  either.
\<close>

definition PortHandler_init :: "'f float_ops \<Rightarrow> string \<Rightarrow> 'f port_handler" where
  "PortHandler_init F name =
     \<lparr>is_open = False, baudrate = DEFAULT_BAUDRATE, tx_time_per_byte = f_of_int F 0,
      port_name = name, ser = None\<rparr>"

text \<open>
  Modelled from the spec: \<open>PortHandler.closePort\<close> of port\_handler.py, which is not among
  the sources. Close releases the channel and leaves the transport closed; when the
  transport is already closed it is a no-op, and it never fails.
\<close>

definition closePort ::
  "('f, 'z) port_handler_scheme \<Rightarrow> world \<Rightarrow> ('f, 'z) port_handler_scheme \<times> world" where
  "closePort s w =
     (if is_open s
      then (s\<lparr>is_open := False, ser := map_option (\<lambda>c. c\<lparr>chan_open := False\<rparr>) (ser s)\<rparr>,
            w\<lparr>io_log := io_log w @ [IoClose]\<rparr>)
      else (s, w))"

text \<open>
  Modelled from the spec: \<open>PortHandler.writePort\<close> of port\_handler.py, which is not
  among the sources. A write is only valid while open; while closed it fails explicitly
  and performs no underlying I/O. While open it hands the buffer to the channel once and
  returns the count written, which is less than the length only when the medium has
  no room for all of it.
\<close>

definition PortHandler_writePort ::
  "('f, 'z) port_handler_scheme \<Rightarrow> world \<Rightarrow> byte list
     \<Rightarrow> int result \<times> ('f, 'z) port_handler_scheme \<times> world" where
  "PortHandler_writePort s w bs =
     (if is_open s
      then (case ser s of
              None \<Rightarrow> (Raise NotOpen, s, w)
            | Some c \<Rightarrow> (Return (int (min (length bs) (tx_room c))), s,
                         w\<lparr>io_log := io_log w @ [IoWrite bs]\<rparr>))
      else (Raise NotOpen, s, w))"

text \<open>
  Modelled from the spec: \<open>PortHandler.readPort\<close> of port\_handler.py, which is not among
  the sources. A read is only valid while open; while closed it fails explicitly and
  performs no underlying I/O. While open it returns at once with up to \<open>length\<close> of the
  bytes that are available, possibly none.
\<close>

definition PortHandler_readPort ::
  "('f, 'z) port_handler_scheme \<Rightarrow> world \<Rightarrow> int
     \<Rightarrow> byte list result \<times> ('f, 'z) port_handler_scheme \<times> world" where
  "PortHandler_readPort s w len =
     (if is_open s
      then (case ser s of
              None \<Rightarrow> (Raise NotOpen, s, w)
            | Some c \<Rightarrow> (Return (take (nat len) (rx c)),
                         s\<lparr>ser := Some (c\<lparr>rx := drop (nat len) (rx c)\<rparr>)\<rparr>,
                         w\<lparr>io_log := io_log w @ [IoRead len]\<rparr>))
      else (Raise NotOpen, s, w))"

section \<open>PortHandlerCAN\<close>

record 'f port_handler_can = "'f port_handler" +
  can_id :: int
  extended_id :: bool
  can_baudrate :: int
  recv_buffer :: "byte list"
  debug :: bool

definition PortHandlerCAN_init ::
  "'f float_ops \<Rightarrow> string \<Rightarrow> int \<Rightarrow> bool \<Rightarrow> int \<Rightarrow> 'f port_handler_can" where
  "PortHandlerCAN_init F name cid ext cbaud =
     port_handler.extend (PortHandler_init F name)
       (port_handler_can.fields cid ext cbaud [] False)"

definition writePort ::
  "'f port_handler_can \<Rightarrow> world \<Rightarrow> packet \<Rightarrow> int result \<times> 'f port_handler_can \<times> world" where
  "writePort s w packet =
     (case (case packet of IntList xs \<Rightarrow> bytearray xs | Bytes bs \<Rightarrow> Return bs) of
        Raise e \<Rightarrow> (Raise e, s, w)
      | Return bs \<Rightarrow>
          PortHandler_writePort s
            (if debug s then print w (''[DEBUG] Writing packet: '' @ hex_dump bs) else w) bs)"

definition readPort ::
  "'f port_handler_can \<Rightarrow> world \<Rightarrow> int \<Rightarrow> byte list result \<times> 'f port_handler_can \<times> world" where
  "readPort s w len =
     (case PortHandler_readPort s w len of
        (Raise e, s1, w1) \<Rightarrow> (Raise e, s1, w1)
      | (Return data, s1, w1) \<Rightarrow>
          (Return data, s1,
           if debug s1 \<and> data \<noteq> [] then print w1 (''[DEBUG] Read data: '' @ hex_dump data)
           else w1))"

text \<open>The six lines that \<open>setupPort\<close> prints in debug mode.\<close>

definition port_configuration_lines :: "'f port_handler_can \<Rightarrow> string list" where
  "port_configuration_lines s =
     [''[DEBUG] Port Configuration:'',
      ''  - Serial Port: '' @ port_name s,
      ''  - Serial Baudrate: '' @ str_int (baudrate s),
      ''  - CAN ID: 0x'' @ format_X (can_id s)
         @ (if extended_id s then '' (Extended)'' else '' (Standard)''),
      ''  - CAN Baudrate: '' @ str_int (can_baudrate s),
      ''Note: Make sure the WS-TTL-CAN converter is configured with these settings'']"

definition setupPort ::
  "'f float_ops \<Rightarrow> 'f port_handler_can \<Rightarrow> world \<Rightarrow> int \<Rightarrow> claim
     \<Rightarrow> bool result \<times> 'f port_handler_can \<times> world" where
  "setupPort F s w cflag_baud c =
     (let (s1, w1) = (if is_open s then closePort s w else (s, w));
          cfg = \<lparr>port = port_name s1, ser_baudrate = baudrate s1, ser_bytesize = EIGHTBITS,
                 ser_parity = PARITY_NONE, ser_stopbits = STOPBITS_ONE, timeout = Some 0\<rparr>;
          w2 = w1\<lparr>io_log := io_log w1 @ [IoOpen cfg]\<rparr>
      in case serial_Serial cfg c of
           Raise (SerialException msg) \<Rightarrow>
             (Return False, s1, print w2 (''Error opening port: '' @ msg))
         | Raise e \<Rightarrow> (Raise e, s1, w2)
         | Return ch \<Rightarrow>
             (let s2 = s1\<lparr>ser := Some ch\<rparr>;
                  s3 = s2\<lparr>is_open := True\<rparr>;
                  s4 = s3\<lparr>ser := Some (reset_input_buffer ch)\<rparr>;
                  w3 = w2\<lparr>io_log := io_log w2 @ [IoResetInput]\<rparr>
              in if baudrate s4 = 0 then (Raise ZeroDivisionError, s4, w3)
                 else
                   (let s5 = s4\<lparr>tx_time_per_byte :=
                                  f_mul F (f_div F (f_of_int F 1000) (f_of_int F (baudrate s4)))
                                    (f_of_int F 10)\<rparr>;
                        w4 = (if debug s5
                              then w3\<lparr>stdout := stdout w3 @ port_configuration_lines s5\<rparr>
                              else w3)
                    in (Return True, s5, w4))))"

definition setDebug :: "'f port_handler_can \<Rightarrow> bool \<Rightarrow> 'f port_handler_can" where
  "setDebug s enable = s\<lparr>debug := enable\<rparr>"

definition printCANConfInstructions :: "'f port_handler_can \<Rightarrow> world \<Rightarrow> world" where
  "printCANConfInstructions s w =
     w\<lparr>stdout := stdout w @
       [''=== WS-TTL-CAN Configuration Instructions ==='',
        ''1. Download and open WS-CAN-TOOL software from Waveshare's website'',
        ''2. Connect the WS-TTL-CAN converter to your computer via USB-to-TTL converter'',
        ''3. Configure the following settings:'',
        ''   - Set 'Working Mode' to 'Transparent Conversion'' @ [CHR 0x27],
        ''   - Set 'CAN Baudrate' to '' @ str_int (can_baudrate s) @ '' bps'',
        ''   - Set 'Serial Baudrate' to '' @ str_int (baudrate s) @ '' bps'',
        ''   - Set 'Serial Data Bit' to 8'',
        ''   - Set 'Serial Stop Bit' to 1'',
        ''   - Set 'Serial Parity Bit' to None'',
        ''   - Set 'CAN ID' to 0x'' @ format_X (can_id s),
        ''   - Set 'Frame Type' to ''
           @ (if extended_id s then ''Extended Frame'' else ''Standard Frame''),
        ''4. Click 'Save Device Parameters'' @ [CHR 0x27],
        ''5. Click 'Restart Device'' @ [CHR 0x27],
        ''==========================================='']\<rparr>"

definition PortHandlerForWaveshareCAN ::
  "'f float_ops \<Rightarrow> string \<Rightarrow> int \<Rightarrow> bool \<Rightarrow> int \<Rightarrow> bool \<Rightarrow> 'f port_handler_can" where
  "PortHandlerForWaveshareCAN F name cid ext cbaud dbg =
     setDebug (PortHandlerCAN_init F name cid ext cbaud) dbg"

section \<open>The specification's side\<close>

text \<open>
  The per-byte transmit time as the specification writes it,
  \<open>msecPerByte = (1000.0 / baudRate) * 10.0\<close>, in the arithmetic \<open>F\<close>.
\<close>

definition msec_per_byte :: "'f float_ops \<Rightarrow> int \<Rightarrow> 'f" where
  "msec_per_byte F r = f_mul F (f_div F (f_of_int F 1000) (f_of_int F r)) (f_of_int F 10)"

text \<open>
  The serial framing the specification fixes for every open: 8 data bits, no parity,
  1 stop bit, a read timeout of zero.
\<close>

definition fixed_framing :: "string \<Rightarrow> int \<Rightarrow> serial_settings" where
  "fixed_framing name baud =
     \<lparr>port = name, ser_baudrate = baud, ser_bytesize = EIGHTBITS, ser_parity = PARITY_NONE,
      ser_stopbits = STOPBITS_ONE, timeout = Some 0\<rparr>"

text \<open>An operation that ends in an exception has failed explicitly.\<close>

fun is_failure :: "'a result \<Rightarrow> bool" where
  "is_failure (Raise e) = True"
| "is_failure (Return v) = False"

text \<open>
  A packet of small integers: every item of a list is a byte value. The bytes such a
  packet stands for, and the integers it was given as.
\<close>

fun small_ints :: "packet \<Rightarrow> bool" where
  "small_ints (Bytes bs) = True"
| "small_ints (IntList xs) = list_all (\<lambda>x. 0 \<le> x \<and> x < 256) xs"

fun packet_bytes :: "packet \<Rightarrow> byte list" where
  "packet_bytes (Bytes bs) = bs"
| "packet_bytes (IntList xs) = map word_of_int xs"

fun packet_ints :: "packet \<Rightarrow> int list" where
  "packet_ints (Bytes bs) = map uint bs"
| "packet_ints (IntList xs) = xs"

definition traced :: "'f port_handler_can \<Rightarrow> world \<Rightarrow> string \<Rightarrow> world" where
  "traced s w line = (if debug s then print w line else w)"

text \<open>
  What a caller can observe of an operation apart from the trace output and the
  diagnostics flag itself: the value returned or the exception raised, the handler
  with the flag masked, and the calls that reached the channel.
\<close>

definition observable ::
  "'a result \<times> 'f port_handler_can \<times> world
     \<Rightarrow> 'a result \<times> 'f port_handler_can \<times> io_event list" where
  "observable out = (fst out, (fst (snd out))\<lparr>debug := False\<rparr>, io_log (snd (snd out)))"

text \<open>
  The hexadecimal trace as the specification words it: each byte as two upper-case
  hexadecimal digits, in order, with a single space between neighbours.
\<close>

fun hex_pair :: "byte \<Rightarrow> string" where
  "hex_pair b = [hex_digit (unat b div 16), hex_digit (unat b mod 16)]"

fun spec_hex_trace :: "byte list \<Rightarrow> string" where
  "spec_hex_trace [] = []"
| "spec_hex_trace [b] = hex_pair b"
| "spec_hex_trace (b # c # bs) = hex_pair b @ '' '' @ spec_hex_trace (c # bs)"

text \<open>
  A numeral as the specification means it, said without the rendering functions: the
  value of each digit character is read from a table of its own (upper-case letters
  only for hexadecimal), the digits give the number in the base, there is no leading
  zero, and a negative number is a minus sign before the numeral of its absolute value.
\<close>

definition hex_digit_value :: "char \<Rightarrow> nat option" where
  "hex_digit_value =
     map_of [(CHR ''0'', 0), (CHR ''1'', 1), (CHR ''2'', 2), (CHR ''3'', 3), (CHR ''4'', 4),
             (CHR ''5'', 5), (CHR ''6'', 6), (CHR ''7'', 7), (CHR ''8'', 8), (CHR ''9'', 9),
             (CHR ''A'', 10), (CHR ''B'', 11), (CHR ''C'', 12), (CHR ''D'', 13),
             (CHR ''E'', 14), (CHR ''F'', 15)]"

definition dec_digit_value :: "char \<Rightarrow> nat option" where
  "dec_digit_value =
     map_of [(CHR ''0'', 0), (CHR ''1'', 1), (CHR ''2'', 2), (CHR ''3'', 3), (CHR ''4'', 4),
             (CHR ''5'', 5), (CHR ''6'', 6), (CHR ''7'', 7), (CHR ''8'', 8), (CHR ''9'', 9)]"

fun numeral_value :: "(char \<Rightarrow> nat option) \<Rightarrow> nat \<Rightarrow> nat \<Rightarrow> string \<Rightarrow> nat option" where
  "numeral_value dv base acc [] = Some acc"
| "numeral_value dv base acc (c # cs) =
     (case dv c of None \<Rightarrow> None | Some d \<Rightarrow> numeral_value dv base (acc * base + d) cs)"

definition is_numeral_of :: "(char \<Rightarrow> nat option) \<Rightarrow> nat \<Rightarrow> string \<Rightarrow> nat \<Rightarrow> bool" where
  "is_numeral_of dv base cs n =
     (if n = 0 then cs = ''0''
      else cs \<noteq> [] \<and> dv (hd cs) \<noteq> Some 0 \<and> numeral_value dv base 0 cs = Some n)"

definition is_signed_numeral_of ::
  "(char \<Rightarrow> nat option) \<Rightarrow> nat \<Rightarrow> string \<Rightarrow> int \<Rightarrow> bool" where
  "is_signed_numeral_of dv base cs i =
     (if i < 0 then cs \<noteq> [] \<and> hd cs = CHR ''-'' \<and> is_numeral_of dv base (tl cs) (nat (- i))
      else is_numeral_of dv base cs (nat i))"

definition is_hex_of :: "string \<Rightarrow> int \<Rightarrow> bool" where
  "is_hex_of cs i = is_signed_numeral_of hex_digit_value 16 cs i"

definition is_decimal_of :: "string \<Rightarrow> int \<Rightarrow> bool" where
  "is_decimal_of cs i = is_signed_numeral_of dec_digit_value 10 cs i"

text \<open>
  The operations a caller can apply to a handler, and a run of any number of them. A
  caller may go on after an exception, so a run continues from the state the failed
  operation left.
\<close>

datatype op =
    OpWrite packet
  | OpRead int
  | OpSetup int claim
  | OpSetDebug bool
  | OpPrintConf
  | OpClose

fun step ::
  "'f float_ops \<Rightarrow> 'f port_handler_can \<times> world \<Rightarrow> op \<Rightarrow> 'f port_handler_can \<times> world" where
  "step F (s, w) (OpWrite packet) = snd (writePort s w packet)"
| "step F (s, w) (OpRead len) = snd (readPort s w len)"
| "step F (s, w) (OpSetup cflag_baud c) = snd (setupPort F s w cflag_baud c)"
| "step F (s, w) (OpSetDebug enable) = (setDebug s enable, w)"
| "step F (s, w) OpPrintConf = (s, printCANConfInstructions s w)"
| "step F (s, w) OpClose = closePort s w"

fun run ::
  "'f float_ops \<Rightarrow> 'f port_handler_can \<times> world \<Rightarrow> op list \<Rightarrow> 'f port_handler_can \<times> world" where
  "run F sw [] = sw"
| "run F sw (x # xs) = run F (step F sw x) xs"

section \<open>Concrete inputs\<close>

text \<open>Exact arithmetic on the reals, as one instance of the arithmetic parameter.\<close>

definition exact_arith :: "real float_ops" where
  "exact_arith = \<lparr>f_of_int = of_int, f_div = (/), f_mul = (*)\<rparr>"

text \<open>A handler built with the defaults, not yet opened, configured for 57600 baud.\<close>

definition example_handler :: "real port_handler_can" where
  "example_handler =
     (PortHandlerForWaveshareCAN exact_arith ''/dev/ttyUSB0'' DEFAULT_CAN_ID False 1000000 False)
       \<lparr>baudrate := 57600\<rparr>"

text \<open>The same handler, open on a channel with three bytes waiting.\<close>

definition open_handler :: "real port_handler_can" where
  "open_handler =
     example_handler
       \<lparr>is_open := True,
        ser := Some \<lparr>settings = fixed_framing ''/dev/ttyUSB0'' 57600, chan_open = True,
                     rx = [0xFF, 0xFF, 0x01], tx_room = 64\<rparr>\<rparr>"

definition quiet_world :: world where
  "quiet_world = \<lparr>stdout = [], io_log = []\<rparr>"

text \<open>A handler with a 29-bit identifier, extended frames and a 500000 baud CAN bus.\<close>

definition extended_handler :: "real port_handler_can" where
  "extended_handler =
     PortHandlerForWaveshareCAN exact_arith ''COM3'' 0x18DAF110 True 500000 True"


section \<open>Evaluating the concrete inputs\<close>

lemma example_handler_simps:
  "is_open example_handler = False" "baudrate example_handler = 57600"
  "debug example_handler = False" "port_name example_handler = ''/dev/ttyUSB0''"
  "ser example_handler = None" "can_id example_handler = 0x60"
  "extended_id example_handler = False" "can_baudrate example_handler = 1000000"
  "recv_buffer example_handler = []"
  by (simp_all add: example_handler_def PortHandlerForWaveshareCAN_def setDebug_def
      PortHandlerCAN_init_def PortHandler_init_def DEFAULT_CAN_ID_def
      port_handler.defs port_handler_can.defs)

lemma open_handler_simps:
  "is_open open_handler = True" "baudrate open_handler = 57600"
  "debug open_handler = False" "port_name open_handler = ''/dev/ttyUSB0''"
  "ser open_handler = Some \<lparr>settings = fixed_framing ''/dev/ttyUSB0'' 57600, chan_open = True,
                     rx = [0xFF, 0xFF, 0x01], tx_room = 64\<rparr>"
  "recv_buffer open_handler = []"
  by (simp_all add: open_handler_def example_handler_simps)

lemma hex_nat_one: "n < 16 \<Longrightarrow> hex_nat n = [hex_digit n]"
  by (subst hex_nat.simps) simp

lemma hex_nat_more: "16 \<le> n \<Longrightarrow> hex_nat n = hex_nat (n div 16) @ [hex_digit (n mod 16)]"
  by (subst hex_nat.simps) simp

lemma dec_nat_digit: "n < 10 \<Longrightarrow> dec_nat n = [hex_digit n]"
  by (subst dec_nat.simps) simp

lemma dec_nat_more: "10 \<le> n \<Longrightarrow> dec_nat n = dec_nat (n div 10) @ [hex_digit (n mod 10)]"
  by (subst dec_nat.simps) simp

lemma str_int_1000000: "str_int 1000000 = ''1000000''"
  by (simp add: str_int_def dec_nat_digit dec_nat_more hex_digit_def)

lemma str_int_57600: "str_int 57600 = ''57600''"
  by (simp add: str_int_def dec_nat_digit dec_nat_more hex_digit_def)

lemma format_X_0x60: "format_X 0x60 = ''60''"
  by (simp add: format_X_def hex_nat_one hex_nat_more hex_digit_def)

lemma extended_handler_simps:
  "baudrate extended_handler = 1000000" "can_id extended_handler = 0x18DAF110"
  "extended_id extended_handler = True" "can_baudrate extended_handler = 500000"
  by (simp_all add: extended_handler_def PortHandlerForWaveshareCAN_def setDebug_def
      PortHandlerCAN_init_def PortHandler_init_def DEFAULT_BAUDRATE_def
      port_handler.defs port_handler_can.defs)

lemma str_int_500000: "str_int 500000 = ''500000''"
  by (simp add: str_int_def dec_nat_digit dec_nat_more hex_digit_def)

lemma format_X_0x18DAF110: "format_X 0x18DAF110 = ''18DAF110''"
  by (simp add: format_X_def hex_nat_one hex_nat_more hex_digit_def)

section \<open>What setupPort returns, case by case\<close>

text \<open>
  \<open>setupPort\<close> closes an open transport first, so it is enough to follow it from a
  closed one.
\<close>

lemma setupPort_via_close:
  "setupPort F s w cflag_baud c
     = setupPort F (fst (closePort s w)) (snd (closePort s w)) cflag_baud c"
  by (simp add: setupPort_def closePort_def)

lemma setupPort_ignores_cflag:
  "setupPort F s w cflag_baud c = setupPort F s w other_flag c"
  by (simp add: setupPort_def)

lemma closePort_debug:
  "closePort (s\<lparr>debug := d\<rparr>) w = ((fst (closePort s w))\<lparr>debug := d\<rparr>, snd (closePort s w))"
  by (simp add: closePort_def)

lemma setupPort_closed_granted:
  assumes "\<not> is_open s" "baudrate s \<noteq> 0"
  shows "setupPort F s w cflag_baud (Granted stale room) =
    (Return True,
     s\<lparr>is_open := True,
       ser := Some \<lparr>settings = fixed_framing (port_name s) (baudrate s), chan_open = True,
                    rx = [], tx_room = room\<rparr>,
       tx_time_per_byte := msec_per_byte F (baudrate s)\<rparr>,
     w\<lparr>io_log := io_log w @ [IoOpen (fixed_framing (port_name s) (baudrate s)), IoResetInput],
       stdout := stdout w @ (if debug s then port_configuration_lines s else [])\<rparr>)"
  using assms
  by (simp add: setupPort_def serial_Serial_def reset_input_buffer_def Let_def fixed_framing_def
      msec_per_byte_def port_configuration_lines_def)

lemma setupPort_closed_granted_zero:
  assumes "\<not> is_open s" "baudrate s = 0"
  shows "setupPort F s w cflag_baud (Granted stale room) =
    (Raise ZeroDivisionError,
     s\<lparr>is_open := True,
       ser := Some \<lparr>settings = fixed_framing (port_name s) (baudrate s), chan_open = True,
                    rx = [], tx_room = room\<rparr>\<rparr>,
     w\<lparr>io_log := io_log w @ [IoOpen (fixed_framing (port_name s) (baudrate s)), IoResetInput]\<rparr>)"
  using assms
  by (simp add: setupPort_def serial_Serial_def reset_input_buffer_def Let_def fixed_framing_def)

lemma setupPort_refused:
  "setupPort F s w cflag_baud (Refused msg) =
     (Return False, fst (closePort s w),
      (snd (closePort s w))
        \<lparr>io_log := io_log (snd (closePort s w))
             @ [IoOpen (fixed_framing (port_name s) (baudrate s))],
         stdout := stdout w @ [''Error opening port: '' @ msg]\<rparr>)"
  by (simp add: setupPort_def closePort_def serial_Serial_def print_def fixed_framing_def)

lemma setupPort_rejected:
  "setupPort F s w cflag_baud (Rejected msg) =
     (Raise (ValueError msg), fst (closePort s w),
      (snd (closePort s w))
        \<lparr>io_log := io_log (snd (closePort s w))
             @ [IoOpen (fixed_framing (port_name s) (baudrate s))]\<rparr>)"
  by (simp add: setupPort_def closePort_def serial_Serial_def fixed_framing_def)

lemma setupPort_success_cases:
  assumes "setupPort F s w cflag_baud c = (Return True, s', w')"
  shows "\<exists>stale room. c = Granted stale room \<and> baudrate s \<noteq> 0"
  using assms
  by (cases c; cases "is_open s")
     (auto simp: setupPort_def serial_Serial_def closePort_def Let_def split: if_splits)

lemma setupPort_open_granted:
  assumes "is_open s" "baudrate s \<noteq> 0"
  shows "setupPort F s w cflag_baud (Granted stale room) =
    (Return True,
     s\<lparr>is_open := True,
       ser := Some \<lparr>settings = fixed_framing (port_name s) (baudrate s), chan_open = True,
                    rx = [], tx_room = room\<rparr>,
       tx_time_per_byte := msec_per_byte F (baudrate s)\<rparr>,
     w\<lparr>io_log := io_log w
          @ [IoClose, IoOpen (fixed_framing (port_name s) (baudrate s)), IoResetInput],
       stdout := stdout w @ (if debug s then port_configuration_lines s else [])\<rparr>)"
proof -
  let ?s1 = "fst (closePort s w)" and ?w1 = "snd (closePort s w)"
  have "\<not> is_open ?s1" "baudrate ?s1 \<noteq> 0"
    using assms by (simp_all add: closePort_def)
  then have "setupPort F ?s1 ?w1 cflag_baud (Granted stale room) =
    (Return True,
     ?s1\<lparr>is_open := True,
       ser := Some \<lparr>settings = fixed_framing (port_name ?s1) (baudrate ?s1), chan_open = True,
                    rx = [], tx_room = room\<rparr>,
       tx_time_per_byte := msec_per_byte F (baudrate ?s1)\<rparr>,
     ?w1\<lparr>io_log := io_log ?w1
          @ [IoOpen (fixed_framing (port_name ?s1) (baudrate ?s1)), IoResetInput],
       stdout := stdout ?w1 @ (if debug ?s1 then port_configuration_lines ?s1 else [])\<rparr>)"
    by (rule setupPort_closed_granted)
  then show ?thesis
    using assms
    by (subst setupPort_via_close) (simp add: closePort_def port_configuration_lines_def)
qed

lemma setupPort_granted_succeeds:
  assumes "baudrate s \<noteq> 0"
  shows "fst (setupPort F s w cflag_baud (Granted stale room)) = Return True"
proof (cases "is_open s")
  case True
  then show ?thesis by (simp add: setupPort_open_granted [OF _ assms])
next
  case False
  then show ?thesis by (simp add: setupPort_closed_granted [OF _ assms])
qed

lemma setupPort_success_result:
  assumes "setupPort F s w cflag_baud c = (Return True, s', w')"
  shows "ser s' = Some \<lparr>settings = fixed_framing (port_name s) (baudrate s), chan_open = True,
                        rx = [], tx_room = (case c of Granted stale room \<Rightarrow> room | _ \<Rightarrow> 0)\<rparr>"
    and "is_open s'"
    and "tx_time_per_byte s' = msec_per_byte F (baudrate s)"
    and "baudrate s' = baudrate s"
    and "io_log w' = io_log (snd (closePort s w))
            @ [IoOpen (fixed_framing (port_name s) (baudrate s)), IoResetInput]"
proof -
  obtain stale room where c: "c = Granted stale room" and nz: "baudrate s \<noteq> 0"
    using setupPort_success_cases [OF assms] by blast
  let ?s1 = "fst (closePort s w)" and ?w1 = "snd (closePort s w)"
  have closed: "\<not> is_open ?s1" and baud: "baudrate ?s1 \<noteq> 0"
    and same: "port_name ?s1 = port_name s" "baudrate ?s1 = baudrate s"
    using nz by (simp_all add: closePort_def)
  have "setupPort F ?s1 ?w1 cflag_baud (Granted stale room) = (Return True, s', w')"
    using assms c setupPort_via_close [of F s w cflag_baud c] by simp
  then have eq: "(Return True, s', w') =
    (Return True,
     ?s1\<lparr>is_open := True,
       ser := Some \<lparr>settings = fixed_framing (port_name ?s1) (baudrate ?s1), chan_open = True,
                    rx = [], tx_room = room\<rparr>,
       tx_time_per_byte := msec_per_byte F (baudrate ?s1)\<rparr>,
     ?w1\<lparr>io_log := io_log ?w1
          @ [IoOpen (fixed_framing (port_name ?s1) (baudrate ?s1)), IoResetInput],
       stdout := stdout ?w1 @ (if debug ?s1 then port_configuration_lines ?s1 else [])\<rparr>)"
    using setupPort_closed_granted [OF closed baud, of F ?w1 cflag_baud stale room] by simp
  from eq same c
  show "ser s' = Some \<lparr>settings = fixed_framing (port_name s) (baudrate s), chan_open = True,
                        rx = [], tx_room = (case c of Granted stale room \<Rightarrow> room | _ \<Rightarrow> 0)\<rparr>"
    by simp
  from eq show "is_open s'" by simp
  from eq same show "tx_time_per_byte s' = msec_per_byte F (baudrate s)" by simp
  from eq same show "baudrate s' = baudrate s" by simp
  from eq same
  show "io_log w' = io_log ?w1 @ [IoOpen (fixed_framing (port_name s) (baudrate s)), IoResetInput]"
    by simp
qed

section \<open>Per-byte transmit time\<close>

text \<open>
  Claim C1. For every baud rate \<open>r > 0\<close>, after a successful \<open>setupPort\<close> on a handler
  configured with that baud rate, the per-byte transmit time the handler exposes is
  \<open>(1000.0 / r) * 10.0\<close>, computed in the handler's own arithmetic, and the configured
  baud rate is still \<open>r\<close>. This holds whether the handler was open or closed before,
  with or without diagnostics, and in every arithmetic \<open>F\<close>. Such a setup exists:
  with a positive baud rate, \<open>setupPort\<close> succeeds whenever the channel is granted.
\<close>

theorem setupPort_tx_time_per_byte:
  assumes "0 < r" and "baudrate s = r"
    and "setupPort F s w cflag_baud c = (Return True, s', w')"
  shows "tx_time_per_byte s' = msec_per_byte F r \<and> baudrate s' = r
       \<and> fst (setupPort F s w cflag_baud (Granted stale room)) = Return True"
proof -
  have "baudrate s \<noteq> 0" using assms(1,2) by simp
  then have "fst (setupPort F s w cflag_baud (Granted stale room)) = Return True"
    by (rule setupPort_granted_succeeds)
  then show ?thesis
    using setupPort_success_result(3,4) [OF assms(3)] assms(2) by simp
qed

theorem setupPort_tx_time_per_byte_witness:
  "(0::int) < 57600 \<and> baudrate example_handler = 57600
   \<and> fst (setupPort exact_arith example_handler quiet_world 0 (Granted [] 64)) = Return True
   \<and> tx_time_per_byte
        (fst (snd (setupPort exact_arith example_handler quiet_world 0 (Granted [] 64))))
       = (1000 / 57600) * 10"
proof -
  have pos: "(0::int) < 57600" by simp
  have baud: "baudrate example_handler = 57600"
    by (simp add: example_handler_simps)
  have ok: "fst (setupPort exact_arith example_handler quiet_world 0 (Granted [] 64)) = Return True"
    by (simp add: setupPort_closed_granted example_handler_simps)
  have run: "setupPort exact_arith example_handler quiet_world 0 (Granted [] 64) =
      (Return True,
       fst (snd (setupPort exact_arith example_handler quiet_world 0 (Granted [] 64))),
       snd (snd (setupPort exact_arith example_handler quiet_world 0 (Granted [] 64))))"
    by (simp add: setupPort_closed_granted example_handler_simps)
  from setupPort_tx_time_per_byte [OF pos baud run] baud ok show ?thesis
    by (simp add: msec_per_byte_def exact_arith_def)
qed

section \<open>Reading and writing while closed\<close>

lemma writePort_closed:
  assumes "\<not> is_open s"
  shows "is_failure (fst (writePort s w packet))"
    and "fst (snd (writePort s w packet)) = s"
    and "io_log (snd (snd (writePort s w packet))) = io_log w"
  using assms
  by (auto simp: writePort_def PortHandler_writePort_def print_def bytearray_def
      split: packet.splits result.splits)

lemma readPort_closed:
  assumes "\<not> is_open s"
  shows "readPort s w len = (Raise NotOpen, s, w)"
  using assms by (simp add: readPort_def PortHandler_readPort_def)

text \<open>
  Claim C2. For every packet and every length, \<open>writePort\<close> and \<open>readPort\<close> on a closed
  transport fail explicitly (they end in an exception, never in a returned value),
  leave the handler as it was, and no call reaches the underlying channel. The failure
  is the base transport's; the CAN layer adds no guard of its own and passes it on.
\<close>

theorem closed_read_write_fail:
  assumes "\<not> is_open s"
  shows "is_failure (fst (writePort s w packet))
       \<and> fst (snd (writePort s w packet)) = s
       \<and> io_log (snd (snd (writePort s w packet))) = io_log w
       \<and> readPort s w len = (Raise NotOpen, s, w)"
  using writePort_closed [OF assms] readPort_closed [OF assms] by simp

theorem closed_read_write_fail_witness:
  "\<not> is_open example_handler
   \<and> fst (writePort example_handler quiet_world (IntList [255, 255, 1, 2, 1, 251])) = Raise NotOpen
   \<and> io_log (snd (snd (writePort example_handler quiet_world (IntList [255, 255, 1, 2, 1, 251]))))
       = []
   \<and> readPort example_handler quiet_world 6 = (Raise NotOpen, example_handler, quiet_world)"
proof -
  have closed: "\<not> is_open example_handler"
    by (simp add: example_handler_simps)
  have "fst (writePort example_handler quiet_world (IntList [255, 255, 1, 2, 1, 251]))
          = Raise NotOpen"
    by (simp add: writePort_def PortHandler_writePort_def bytearray_def example_handler_simps)
  with closed closed_read_write_fail [OF closed, of quiet_world "IntList [255, 255, 1, 2, 1, 251]" 6]
  show ?thesis by (simp add: quiet_world_def)
qed

section \<open>Failure to claim the channel\<close>




section \<open>Opening twice\<close>

text \<open>
  Claim C4. \<open>setupPort\<close> on a transport that is already open, when the channel is
  granted and the baud rate is positive, closes the existing channel first and then
  runs the whole setup: the calls that reach the channel are close, open with the fixed
  framing, reset of the input buffer, in this order; the result is \<open>True\<close>; the transport
  is open on the fresh channel, whose receive buffer is empty and none of whose parts
  comes from the old channel; the per-byte timing is recomputed from the configured baud
  rate; and the outcome is the one of closing first and setting up the closed transport.
\<close>

theorem setupPort_reopen:
  assumes "is_open s" and "0 < baudrate s"
    and "setupPort F s w cflag_baud (Granted stale room) = (res, s', w')"
  shows "res = Return True
       \<and> is_open s'
       \<and> tx_time_per_byte s' = msec_per_byte F (baudrate s)
       \<and> ser s' = Some \<lparr>settings = fixed_framing (port_name s) (baudrate s), chan_open = True,
                        rx = [], tx_room = room\<rparr>
       \<and> io_log w' = io_log w
            @ [IoClose, IoOpen (fixed_framing (port_name s) (baudrate s)), IoResetInput]
       \<and> setupPort F (fst (closePort s w)) (snd (closePort s w)) cflag_baud (Granted stale room)
           = (res, s', w')"
proof -
  have "baudrate s \<noteq> 0" using assms(2) by simp
  from setupPort_open_granted [OF assms(1) this, of F w cflag_baud stale room] assms(3)
  have "res = Return True \<and> is_open s'
       \<and> tx_time_per_byte s' = msec_per_byte F (baudrate s)
       \<and> ser s' = Some \<lparr>settings = fixed_framing (port_name s) (baudrate s), chan_open = True,
                        rx = [], tx_room = room\<rparr>
       \<and> io_log w' = io_log w
            @ [IoClose, IoOpen (fixed_framing (port_name s) (baudrate s)), IoResetInput]"
    by auto
  moreover have "setupPort F (fst (closePort s w)) (snd (closePort s w)) cflag_baud
                   (Granted stale room) = (res, s', w')"
    using assms(3) setupPort_via_close [of F s w cflag_baud "Granted stale room"] by simp
  ultimately show ?thesis by simp
qed

theorem setupPort_reopen_witness:
  "is_open open_handler \<and> 0 < baudrate open_handler
   \<and> fst (setupPort exact_arith open_handler quiet_world 0 (Granted [0x55] 8)) = Return True
   \<and> is_open (fst (snd (setupPort exact_arith open_handler quiet_world 0 (Granted [0x55] 8))))
   \<and> tx_time_per_byte (fst (snd (setupPort exact_arith open_handler quiet_world 0 (Granted [0x55] 8))))
       = (1000 / 57600) * 10
   \<and> io_log (snd (snd (setupPort exact_arith open_handler quiet_world 0 (Granted [0x55] 8))))
       = [IoClose, IoOpen (fixed_framing ''/dev/ttyUSB0'' 57600), IoResetInput]"
proof -
  have h1: "is_open open_handler" and h2: "0 < baudrate open_handler"
    by (simp_all add: open_handler_simps)
  have h3: "setupPort exact_arith open_handler quiet_world 0 (Granted [0x55] 8) =
      (fst (setupPort exact_arith open_handler quiet_world 0 (Granted [0x55] 8)),
       fst (snd (setupPort exact_arith open_handler quiet_world 0 (Granted [0x55] 8))),
       snd (snd (setupPort exact_arith open_handler quiet_world 0 (Granted [0x55] 8))))"
    by simp
  from setupPort_reopen [OF h1 h2 h3] h1 h2 show ?thesis
    by (simp add: msec_per_byte_def exact_arith_def open_handler_simps quiet_world_def)
qed

section \<open>Writing forwards the packet whole\<close>

lemma uint_byte_of_small: "0 \<le> x \<Longrightarrow> x < 256 \<Longrightarrow> uint (word_of_int x :: byte) = x"
  by (simp add: uint_word_of_int take_bit_int_eq_self)

lemma packet_bytes_unmodified:
  "small_ints packet \<Longrightarrow> map uint (packet_bytes packet) = packet_ints packet"
  by (cases packet) (auto simp: list_all_iff uint_byte_of_small intro: map_idI)

lemma writePort_small_ints:
  "small_ints packet \<Longrightarrow>
   writePort s w packet =
     PortHandler_writePort s
       (traced s w (''[DEBUG] Writing packet: '' @ hex_dump (packet_bytes packet)))
       (packet_bytes packet)"
  by (cases packet) (simp_all add: writePort_def bytearray_def traced_def)

text \<open>
  Claim C5. For every packet, given as bytes or as a list of small integers,
  \<open>writePort\<close> turns it into the byte sequence with the same values and hands exactly
  that sequence to the base transport's write: what \<open>writePort\<close> returns is what the
  base write returns for these bytes, the handler is unchanged, and the calls that reach
  the channel are those of this one base write, which on an open transport is a single
  write of the whole sequence, however long (no split at 8 bytes).
\<close>

theorem writePort_forwards_unsplit:
  assumes "small_ints packet"
  shows "map uint (packet_bytes packet) = packet_ints packet
       \<and> fst (writePort s w packet) = fst (PortHandler_writePort s w (packet_bytes packet))
       \<and> fst (snd (writePort s w packet)) = s
       \<and> io_log (snd (snd (writePort s w packet)))
           = io_log (snd (snd (PortHandler_writePort s w (packet_bytes packet))))
       \<and> io_log (snd (snd (writePort s w packet)))
           = (if is_open s \<and> ser s \<noteq> None then io_log w @ [IoWrite (packet_bytes packet)]
              else io_log w)"
  using packet_bytes_unmodified [OF assms]
  by (auto simp: writePort_small_ints [OF assms] PortHandler_writePort_def traced_def print_def
      split: option.splits)

theorem writePort_forwards_unsplit_witness:
  "small_ints (IntList [255, 255, 253, 0, 1, 7, 0, 85, 0, 6, 4, 38])
   \<and> CAN_MAX_DATA_SIZE < length [255, 255, 253, 0, 1, 7, 0, 85, 0, 6, 4, 38 :: int]
   \<and> fst (writePort open_handler quiet_world (IntList [255, 255, 253, 0, 1, 7, 0, 85, 0, 6, 4, 38]))
       = Return 12
   \<and> io_log (snd (snd (writePort open_handler quiet_world
          (IntList [255, 255, 253, 0, 1, 7, 0, 85, 0, 6, 4, 38]))))
       = [IoWrite [255, 255, 253, 0, 1, 7, 0, 85, 0, 6, 4, 38]]"
proof -
  have small: "small_ints (IntList [255, 255, 253, 0, 1, 7, 0, 85, 0, 6, 4, 38])"
    by simp
  from writePort_forwards_unsplit [OF small, of open_handler quiet_world] small
  show ?thesis
    by (simp add: PortHandler_writePort_def open_handler_simps quiet_world_def
        CAN_MAX_DATA_SIZE_def)
qed

section \<open>The diagnostics flag changes nothing but the trace\<close>

lemma writePort_debug_irrelevant:
  "observable (writePort (s\<lparr>debug := d\<rparr>) w packet)
     = observable (writePort (s\<lparr>debug := False\<rparr>) w packet)"
  by (simp add: observable_def writePort_def PortHandler_writePort_def print_def
       split: packet.splits result.splits option.splits)

lemma readPort_debug_irrelevant:
  "observable (readPort (s\<lparr>debug := d\<rparr>) w len)
     = observable (readPort (s\<lparr>debug := False\<rparr>) w len)"
  by (simp add: observable_def readPort_def PortHandler_readPort_def print_def
       split: option.splits)

lemma setupPort_closed_debug_irrelevant:
  assumes "\<not> is_open s"
  shows "observable (setupPort F (s\<lparr>debug := d\<rparr>) w cflag_baud c)
           = observable (setupPort F (s\<lparr>debug := False\<rparr>) w cflag_baud c)"
proof (cases c)
  case (Granted stale room)
  show ?thesis
  proof (cases "baudrate s = 0")
    case True
    with assms Granted show ?thesis
      by (simp add: setupPort_closed_granted_zero observable_def)
  next
    case False
    with assms Granted show ?thesis
      by (simp add: setupPort_closed_granted observable_def)
  qed
next
  case (Refused msg)
  with assms show ?thesis
    by (simp add: setupPort_refused closePort_def observable_def)
next
  case (Rejected msg)
  with assms show ?thesis
    by (simp add: setupPort_rejected closePort_def observable_def)
qed

lemma setupPort_debug_irrelevant:
  "observable (setupPort F (s\<lparr>debug := d\<rparr>) w cflag_baud c)
     = observable (setupPort F (s\<lparr>debug := False\<rparr>) w cflag_baud c)"
proof -
  let ?s1 = "fst (closePort s w)" and ?w1 = "snd (closePort s w)"
  have closed: "\<not> is_open ?s1"
    by (simp add: closePort_def)
  have "setupPort F (s\<lparr>debug := b\<rparr>) w cflag_baud c
          = setupPort F (?s1\<lparr>debug := b\<rparr>) ?w1 cflag_baud c" for b
    by (subst setupPort_via_close) (simp add: closePort_debug)
  then show ?thesis
    using setupPort_closed_debug_irrelevant [OF closed] by simp
qed

text \<open>
  Claim C6. For every packet, every read length and every answer of the channel, a run
  of \<open>writePort\<close>, \<open>readPort\<close> or \<open>setupPort\<close> with the diagnostics flag set and the same
  run with it cleared give the same result (value returned or exception raised, so in
  particular the same success flag of \<open>setupPort\<close>), the same handler apart from the flag
  itself, and the same calls to the channel. Only the trace output can differ.
\<close>

theorem diagnostics_flag_irrelevant:
  "observable (writePort (s\<lparr>debug := True\<rparr>) w packet)
     = observable (writePort (s\<lparr>debug := False\<rparr>) w packet)
   \<and> observable (readPort (s\<lparr>debug := True\<rparr>) w len)
     = observable (readPort (s\<lparr>debug := False\<rparr>) w len)
   \<and> observable (setupPort F (s\<lparr>debug := True\<rparr>) w cflag_baud c)
     = observable (setupPort F (s\<lparr>debug := False\<rparr>) w cflag_baud c)"
  by (intro conjI writePort_debug_irrelevant readPort_debug_irrelevant setupPort_debug_irrelevant)

theorem diagnostics_flag_irrelevant_witness:
  "fst (writePort (open_handler\<lparr>debug := True\<rparr>) quiet_world (Bytes [1, 2, 255])) = Return 3
   \<and> fst (writePort (open_handler\<lparr>debug := False\<rparr>) quiet_world (Bytes [1, 2, 255])) = Return 3
   \<and> fst (readPort (open_handler\<lparr>debug := True\<rparr>) quiet_world 2) = Return [0xFF, 0xFF]
   \<and> fst (readPort (open_handler\<lparr>debug := False\<rparr>) quiet_world 2) = Return [0xFF, 0xFF]
   \<and> fst (setupPort exact_arith (open_handler\<lparr>debug := True\<rparr>) quiet_world 0 (Granted [] 8))
       = fst (setupPort exact_arith (open_handler\<lparr>debug := False\<rparr>) quiet_world 0 (Granted [] 8))"
proof -
  have w: "fst (writePort (open_handler\<lparr>debug := False\<rparr>) quiet_world (Bytes [1, 2, 255]))
             = Return 3"
    by (simp add: writePort_def PortHandler_writePort_def open_handler_simps)
  have r: "fst (readPort (open_handler\<lparr>debug := False\<rparr>) quiet_world 2) = Return [0xFF, 0xFF]"
    by (simp add: readPort_def PortHandler_readPort_def open_handler_simps)
  from diagnostics_flag_irrelevant
         [of open_handler quiet_world "Bytes [1, 2, 255]" 2 exact_arith 0 "Granted [] 8"] w r
  show ?thesis
    by (simp add: observable_def)
qed

section \<open>The hexadecimal trace\<close>

lemma hex_nat_two:
  assumes "16 \<le> n" "n < 256"
  shows "hex_nat n = [hex_digit (n div 16), hex_digit (n mod 16)]"
proof -
  have "n div 16 < 16" using assms(2) by simp
  then have "hex_nat (n div 16) = [hex_digit (n div 16)]" by (rule hex_nat_one)
  with assms(1) show ?thesis by (simp add: hex_nat_more)
qed

lemma hex_digit_0: "hex_digit 0 = CHR ''0''"
  by (simp add: hex_digit_def)

text \<open>On a byte, the format \<open>02X\<close> gives exactly the two digits of the high and low nibble.\<close>

lemma format_02X_byte: "format_02X (uint b) = hex_pair b"
proof -
  have lt: "unat b < 256" using unsigned_less [of b, where ?'a = nat] by simp
  have fx: "format_X (uint b) = hex_nat (unat b)"
    by (simp add: format_X_def)
  show ?thesis
  proof (cases "unat b < 16")
    case True
    then show ?thesis
      by (simp add: format_02X_def fx hex_nat_one hex_digit_0)
  next
    case False
    then have "hex_nat (unat b) = [hex_digit (unat b div 16), hex_digit (unat b mod 16)]"
      using lt by (intro hex_nat_two) simp_all
    then show ?thesis
      by (simp add: format_02X_def fx)
  qed
qed

lemma hex_dump_spec: "hex_dump bs = spec_hex_trace bs"
  unfolding hex_dump_def
  by (induction bs rule: spec_hex_trace.induct) (simp_all add: format_02X_byte)

lemma writePort_trace:
  "debug s \<Longrightarrow> small_ints packet \<Longrightarrow>
   stdout (snd (snd (writePort s w packet)))
     = stdout w @ [''[DEBUG] Writing packet: '' @ spec_hex_trace (packet_bytes packet)]"
  by (simp add: writePort_small_ints traced_def PortHandler_writePort_def print_def hex_dump_spec
      split: option.splits)

lemma readPort_trace:
  "debug s \<Longrightarrow>
   stdout (snd (snd (readPort s w len)))
     = (case fst (readPort s w len) of
          Return (d # ds) \<Rightarrow> stdout w @ [''[DEBUG] Read data: '' @ spec_hex_trace (d # ds)]
        | _ \<Rightarrow> stdout w)"
  by (simp add: readPort_def PortHandler_readPort_def print_def hex_dump_spec
      split: option.splits list.splits)

lemma spec_hex_trace_example: "spec_hex_trace [0x01, 0x02, 0xFF] = ''01 02 FF''"
  by (simp add: hex_digit_def)

text \<open>
  Claim C7. With diagnostics enabled, a write of any packet prints one trace line: the
  label \<open>[DEBUG] Writing packet: \<close> followed by exactly the two-digit upper-case
  hexadecimal form of each byte, in order, separated by single spaces; for the bytes
  \<open>01 02 FF\<close> this form is \<open>01 02 FF\<close>. A read prints such a line, under the label
  \<open>[DEBUG] Read data: \<close>, when it returns at least one byte, and prints nothing when it
  returns no byte or fails.
\<close>

theorem debug_hex_trace:
  assumes "debug s" and "small_ints packet"
  shows "stdout (snd (snd (writePort s w packet)))
           = stdout w @ [''[DEBUG] Writing packet: '' @ spec_hex_trace (packet_bytes packet)]
       \<and> spec_hex_trace [0x01, 0x02, 0xFF] = ''01 02 FF''
       \<and> stdout (snd (snd (readPort s w len)))
           = (case fst (readPort s w len) of
                Return (d # ds) \<Rightarrow> stdout w @ [''[DEBUG] Read data: '' @ spec_hex_trace (d # ds)]
              | _ \<Rightarrow> stdout w)"
  using writePort_trace [OF assms] readPort_trace [OF assms(1)] spec_hex_trace_example by simp

theorem debug_hex_trace_witness:
  "debug (open_handler\<lparr>debug := True\<rparr>) \<and> small_ints (Bytes [0x01, 0x02, 0xFF])
   \<and> stdout (snd (snd (writePort (open_handler\<lparr>debug := True\<rparr>) quiet_world
                          (Bytes [0x01, 0x02, 0xFF]))))
       = [''[DEBUG] Writing packet: 01 02 FF'']
   \<and> stdout (snd (snd (readPort (open_handler\<lparr>debug := True\<rparr>) quiet_world 2)))
       = [''[DEBUG] Read data: FF FF'']
   \<and> stdout (snd (snd (readPort (open_handler\<lparr>debug := True\<rparr>) quiet_world 0))) = []"
proof -
  have d: "debug (open_handler\<lparr>debug := True\<rparr>)" by simp
  have p: "small_ints (Bytes [0x01, 0x02, 0xFF])" by simp
  have r2: "fst (readPort (open_handler\<lparr>debug := True\<rparr>) quiet_world 2) = Return [0xFF, 0xFF]"
    by (simp add: readPort_def PortHandler_readPort_def open_handler_simps)
  have r0: "fst (readPort (open_handler\<lparr>debug := True\<rparr>) quiet_world 0) = Return []"
    by (simp add: readPort_def PortHandler_readPort_def open_handler_simps)
  from debug_hex_trace [OF d p, of quiet_world 2] debug_hex_trace [OF d p, of quiet_world 0] r2 r0
  show ?thesis
    by (simp add: quiet_world_def hex_digit_def)
qed

section \<open>The serial framing\<close>

text \<open>
  Claim C8. After a successful \<open>setupPort\<close> the handler's channel has 8 data bits, no
  parity, 1 stop bit and a read timeout of zero, on the handler's port at the handler's
  baud rate; its receive buffer is empty, whatever was buffered when the device was
  claimed; the channel was opened with exactly this framing and its input buffer reset
  right after; and the argument of \<open>setupPort\<close> has no influence on any of it.
\<close>

theorem setupPort_fixed_framing:
  assumes "setupPort F s w cflag_baud c = (Return True, s', w')"
  shows "map_option (\<lambda>ch. (ser_bytesize (settings ch), ser_parity (settings ch),
                            ser_stopbits (settings ch), timeout (settings ch), rx ch)) (ser s')
           = Some (EIGHTBITS, PARITY_NONE, STOPBITS_ONE, Some 0, [])
       \<and> map_option (\<lambda>ch. (port (settings ch), ser_baudrate (settings ch))) (ser s')
           = Some (port_name s, baudrate s)
       \<and> io_log w' = io_log (snd (closePort s w))
            @ [IoOpen (fixed_framing (port_name s) (baudrate s)), IoResetInput]
       \<and> setupPort F s w other_flag c = setupPort F s w cflag_baud c"
  using setupPort_success_result(1,5) [OF assms]
    setupPort_ignores_cflag [of F s w other_flag c cflag_baud]
  by (simp add: fixed_framing_def)

theorem setupPort_fixed_framing_witness:
  "setupPort exact_arith example_handler quiet_world 0 (Granted [0x55, 0xAA] 8)
     = setupPort exact_arith example_handler quiet_world 1000000 (Granted [0x55, 0xAA] 8)
   \<and> fst (setupPort exact_arith example_handler quiet_world 0 (Granted [0x55, 0xAA] 8)) = Return True
   \<and> ser (fst (snd (setupPort exact_arith example_handler quiet_world 0 (Granted [0x55, 0xAA] 8))))
       = Some \<lparr>settings = \<lparr>port = ''/dev/ttyUSB0'', ser_baudrate = 57600, ser_bytesize = EIGHTBITS,
                 ser_parity = PARITY_NONE, ser_stopbits = STOPBITS_ONE, timeout = Some 0\<rparr>,
               chan_open = True, rx = [], tx_room = 8\<rparr>"
proof -
  have run: "setupPort exact_arith example_handler quiet_world 0 (Granted [0x55, 0xAA] 8) =
      (Return True,
       fst (snd (setupPort exact_arith example_handler quiet_world 0 (Granted [0x55, 0xAA] 8))),
       snd (snd (setupPort exact_arith example_handler quiet_world 0 (Granted [0x55, 0xAA] 8))))"
    by (simp add: setupPort_closed_granted example_handler_simps)
  have s: "ser (fst (snd (setupPort exact_arith example_handler quiet_world 0 (Granted [0x55, 0xAA] 8))))
       = Some \<lparr>settings = \<lparr>port = ''/dev/ttyUSB0'', ser_baudrate = 57600, ser_bytesize = EIGHTBITS,
                 ser_parity = PARITY_NONE, ser_stopbits = STOPBITS_ONE, timeout = Some 0\<rparr>,
               chan_open = True, rx = [], tx_room = 8\<rparr>"
    by (simp add: setupPort_closed_granted example_handler_simps fixed_framing_def)
  have ok: "fst (setupPort exact_arith example_handler quiet_world 0 (Granted [0x55, 0xAA] 8))
              = Return True"
    by (simp add: setupPort_closed_granted example_handler_simps)
  from setupPort_fixed_framing [OF run, of 1000000] ok s show ?thesis
    by simp
qed

section \<open>The advisory text\<close>

lemma window_of_fifteen:
  "take 8 (drop (length pre + 4)
     (pre @ [a0, a1, a2, a3, b0, b1, b2, b3, b4, b5, b6, b7, c0, c1, c2]))
   = [b0, b1, b2, b3, b4, b5, b6, b7]"
  by simp

lemma stdout_printCANConfInstructions:
  "stdout (printCANConfInstructions s w) = stdout w @
       [''=== WS-TTL-CAN Configuration Instructions ==='',
        ''1. Download and open WS-CAN-TOOL software from Waveshare's website'',
        ''2. Connect the WS-TTL-CAN converter to your computer via USB-to-TTL converter'',
        ''3. Configure the following settings:'',
        ''   - Set 'Working Mode' to 'Transparent Conversion'' @ [CHR 0x27],
        ''   - Set 'CAN Baudrate' to '' @ str_int (can_baudrate s) @ '' bps'',
        ''   - Set 'Serial Baudrate' to '' @ str_int (baudrate s) @ '' bps'',
        ''   - Set 'Serial Data Bit' to 8'',
        ''   - Set 'Serial Stop Bit' to 1'',
        ''   - Set 'Serial Parity Bit' to None'',
        ''   - Set 'CAN ID' to 0x'' @ format_X (can_id s),
        ''   - Set 'Frame Type' to ''
           @ (if extended_id s then ''Extended Frame'' else ''Standard Frame''),
        ''4. Click 'Save Device Parameters'' @ [CHR 0x27],
        ''5. Click 'Restart Device'' @ [CHR 0x27],
        ''==========================================='']"
  by (simp add: printCANConfInstructions_def)

lemma io_log_printCANConfInstructions: "io_log (printCANConfInstructions s w) = io_log w"
  by (simp add: printCANConfInstructions_def)

text \<open>The renderings of \<open>{...:X}\<close> and of a plain f-string field are the numerals.\<close>

lemma below_16_cases:
  "d < 16 \<Longrightarrow> d \<in> {0, 1, 2, 3, 4, 5, 6, 7, 8, 9, 10, 11, 12, 13, 14, 15::nat}"
  unfolding insert_iff empty_iff by arith

lemma below_10_cases:
  "d < 10 \<Longrightarrow> d \<in> {0, 1, 2, 3, 4, 5, 6, 7, 8, 9::nat}"
  unfolding insert_iff empty_iff by arith

lemma hex_digit_value_hex_digit: "d < 16 \<Longrightarrow> hex_digit_value (hex_digit d) = Some d"
  by (drule below_16_cases) (auto simp: hex_digit_value_def hex_digit_def)

lemma dec_digit_value_hex_digit: "d < 10 \<Longrightarrow> dec_digit_value (hex_digit d) = Some d"
  by (drule below_10_cases) (auto simp: dec_digit_value_def hex_digit_def)

lemma numeral_value_snoc:
  "numeral_value dv base acc (cs @ [c]) =
     (case numeral_value dv base acc cs of
        None \<Rightarrow> None
      | Some v \<Rightarrow> (case dv c of None \<Rightarrow> None | Some d \<Rightarrow> Some (v * base + d)))"
  by (induction cs arbitrary: acc) (simp_all split: option.splits)

lemma hex_nat_value: "numeral_value hex_digit_value 16 0 (hex_nat n) = Some n"
proof (induction n rule: hex_nat.induct)
  case (1 n)
  show ?case
  proof (cases "n < 16")
    case True
    then show ?thesis by (simp add: hex_nat_one hex_digit_value_hex_digit)
  next
    case False
    then have "numeral_value hex_digit_value 16 0 (hex_nat (n div 16)) = Some (n div 16)"
      by (rule "1.IH")
    with False show ?thesis
      by (simp add: hex_nat_more numeral_value_snoc hex_digit_value_hex_digit)
  qed
qed

lemma hex_nat_nonempty: "hex_nat n \<noteq> []"
  by (subst hex_nat.simps) simp

lemma hex_nat_leading: "0 < n \<Longrightarrow> hex_digit_value (hd (hex_nat n)) \<noteq> Some 0"
proof (induction n rule: hex_nat.induct)
  case (1 n)
  show ?case
  proof (cases "n < 16")
    case True
    with "1.prems" show ?thesis by (simp add: hex_nat_one hex_digit_value_hex_digit)
  next
    case False
    then have "0 < n div 16" by simp
    with False have "hex_digit_value (hd (hex_nat (n div 16))) \<noteq> Some 0"
      by (intro "1.IH") simp_all
    with False show ?thesis
      by (simp add: hex_nat_more hex_nat_nonempty)
  qed
qed

lemma hex_nat_is_numeral: "is_numeral_of hex_digit_value 16 (hex_nat n) n"
  by (simp add: is_numeral_of_def hex_nat_one hex_digit_def hex_nat_nonempty hex_nat_leading
      hex_nat_value)

lemma format_X_is_hex: "is_hex_of (format_X i) i"
  by (simp add: is_hex_of_def is_signed_numeral_of_def format_X_def hex_nat_is_numeral)

lemma dec_nat_value: "numeral_value dec_digit_value 10 0 (dec_nat n) = Some n"
proof (induction n rule: dec_nat.induct)
  case (1 n)
  show ?case
  proof (cases "n < 10")
    case True
    then show ?thesis by (simp add: dec_nat_digit dec_digit_value_hex_digit)
  next
    case False
    then have "numeral_value dec_digit_value 10 0 (dec_nat (n div 10)) = Some (n div 10)"
      by (rule "1.IH")
    with False show ?thesis
      by (simp add: dec_nat_more numeral_value_snoc dec_digit_value_hex_digit)
  qed
qed

lemma dec_nat_nonempty: "dec_nat n \<noteq> []"
  by (subst dec_nat.simps) simp

lemma dec_nat_leading: "0 < n \<Longrightarrow> dec_digit_value (hd (dec_nat n)) \<noteq> Some 0"
proof (induction n rule: dec_nat.induct)
  case (1 n)
  show ?case
  proof (cases "n < 10")
    case True
    with "1.prems" show ?thesis by (simp add: dec_nat_digit dec_digit_value_hex_digit)
  next
    case False
    then have "0 < n div 10" by simp
    with False have "dec_digit_value (hd (dec_nat (n div 10))) \<noteq> Some 0"
      by (intro "1.IH") simp_all
    with False show ?thesis
      by (simp add: dec_nat_more dec_nat_nonempty)
  qed
qed

lemma dec_nat_is_numeral: "is_numeral_of dec_digit_value 10 (dec_nat n) n"
  by (simp add: is_numeral_of_def dec_nat_digit hex_digit_def dec_nat_nonempty dec_nat_leading
      dec_nat_value)

lemma str_int_is_decimal: "is_decimal_of (str_int i) i"
  by (simp add: is_decimal_of_def is_signed_numeral_of_def str_int_def dec_nat_is_numeral)

text \<open>
  Claim C9. \<open>printCANConfInstructions\<close> prints fifteen lines after what was printed
  before; after the four lines of heading, the next eight are the settings in this
  order: working mode Transparent Conversion, CAN baud rate, serial baud rate, serial
  data bits 8, serial stop bits 1, serial parity none, CAN identifier in hexadecimal,
  frame type (extended or standard after the extended-identifier flag). The values
  shown are the handler's own: the text after \<open>0x\<close> is the upper-case hexadecimal
  numeral of its \<open>can_id\<close>, and the two baud rates are the decimal numerals of its
  \<open>can_baudrate\<close> and \<open>baudrate\<close>. Nothing reaches the channel.
\<close>

theorem printCANConfInstructions_order:
  "take 8 (drop (length (stdout w) + 4) (stdout (printCANConfInstructions s w)))
     = [''   - Set 'Working Mode' to 'Transparent Conversion'' @ [CHR 0x27],
        ''   - Set 'CAN Baudrate' to '' @ str_int (can_baudrate s) @ '' bps'',
        ''   - Set 'Serial Baudrate' to '' @ str_int (baudrate s) @ '' bps'',
        ''   - Set 'Serial Data Bit' to 8'',
        ''   - Set 'Serial Stop Bit' to 1'',
        ''   - Set 'Serial Parity Bit' to None'',
        ''   - Set 'CAN ID' to 0x'' @ format_X (can_id s),
        ''   - Set 'Frame Type' to ''
           @ (if extended_id s then ''Extended Frame'' else ''Standard Frame'')]
   \<and> is_decimal_of (str_int (can_baudrate s)) (can_baudrate s)
   \<and> is_decimal_of (str_int (baudrate s)) (baudrate s)
   \<and> is_hex_of (format_X (can_id s)) (can_id s)
   \<and> length (stdout (printCANConfInstructions s w)) = length (stdout w) + 15
   \<and> take (length (stdout w)) (stdout (printCANConfInstructions s w)) = stdout w
   \<and> io_log (printCANConfInstructions s w) = io_log w"
proof (intro conjI)
  show "take 8 (drop (length (stdout w) + 4) (stdout (printCANConfInstructions s w)))
     = [''   - Set 'Working Mode' to 'Transparent Conversion'' @ [CHR 0x27],
        ''   - Set 'CAN Baudrate' to '' @ str_int (can_baudrate s) @ '' bps'',
        ''   - Set 'Serial Baudrate' to '' @ str_int (baudrate s) @ '' bps'',
        ''   - Set 'Serial Data Bit' to 8'',
        ''   - Set 'Serial Stop Bit' to 1'',
        ''   - Set 'Serial Parity Bit' to None'',
        ''   - Set 'CAN ID' to 0x'' @ format_X (can_id s),
        ''   - Set 'Frame Type' to ''
           @ (if extended_id s then ''Extended Frame'' else ''Standard Frame'')]"
    unfolding stdout_printCANConfInstructions by (rule window_of_fifteen)
  show "is_decimal_of (str_int (can_baudrate s)) (can_baudrate s)"
    by (rule str_int_is_decimal)
  show "is_decimal_of (str_int (baudrate s)) (baudrate s)"
    by (rule str_int_is_decimal)
  show "is_hex_of (format_X (can_id s)) (can_id s)"
    by (rule format_X_is_hex)
  show "length (stdout (printCANConfInstructions s w)) = length (stdout w) + 15"
    unfolding stdout_printCANConfInstructions by simp
  show "take (length (stdout w)) (stdout (printCANConfInstructions s w)) = stdout w"
    unfolding stdout_printCANConfInstructions by simp
  show "io_log (printCANConfInstructions s w) = io_log w"
    by (rule io_log_printCANConfInstructions)
qed

theorem printCANConfInstructions_order_witness:
  "take 8 (drop 4 (stdout (printCANConfInstructions example_handler quiet_world)))
     = [''   - Set 'Working Mode' to 'Transparent Conversion'' @ [CHR 0x27],
        ''   - Set 'CAN Baudrate' to 1000000 bps'',
        ''   - Set 'Serial Baudrate' to 57600 bps'',
        ''   - Set 'Serial Data Bit' to 8'',
        ''   - Set 'Serial Stop Bit' to 1'',
        ''   - Set 'Serial Parity Bit' to None'',
        ''   - Set 'CAN ID' to 0x60'',
        ''   - Set 'Frame Type' to Standard Frame'']
   \<and> take 8 (drop 4 (stdout (printCANConfInstructions extended_handler quiet_world)))
     = [''   - Set 'Working Mode' to 'Transparent Conversion'' @ [CHR 0x27],
        ''   - Set 'CAN Baudrate' to 500000 bps'',
        ''   - Set 'Serial Baudrate' to 1000000 bps'',
        ''   - Set 'Serial Data Bit' to 8'',
        ''   - Set 'Serial Stop Bit' to 1'',
        ''   - Set 'Serial Parity Bit' to None'',
        ''   - Set 'CAN ID' to 0x18DAF110'',
        ''   - Set 'Frame Type' to Extended Frame'']
   \<and> is_hex_of ''18DAF110'' 0x18DAF110 \<and> is_decimal_of ''500000'' 500000"
proof -
  have empty: "length (stdout quiet_world) + 4 = 4"
    by (simp add: quiet_world_def)
  from printCANConfInstructions_order [of quiet_world example_handler]
  have "take 8 (drop (length (stdout quiet_world) + 4)
          (stdout (printCANConfInstructions example_handler quiet_world)))
     = [''   - Set 'Working Mode' to 'Transparent Conversion'' @ [CHR 0x27],
        ''   - Set 'CAN Baudrate' to '' @ str_int (can_baudrate example_handler) @ '' bps'',
        ''   - Set 'Serial Baudrate' to '' @ str_int (baudrate example_handler) @ '' bps'',
        ''   - Set 'Serial Data Bit' to 8'',
        ''   - Set 'Serial Stop Bit' to 1'',
        ''   - Set 'Serial Parity Bit' to None'',
        ''   - Set 'CAN ID' to 0x'' @ format_X (can_id example_handler),
        ''   - Set 'Frame Type' to ''
           @ (if extended_id example_handler then ''Extended Frame'' else ''Standard Frame'')]"
    by (rule conjunct1)
  then have first: "take 8 (drop 4 (stdout (printCANConfInstructions example_handler quiet_world)))
     = [''   - Set 'Working Mode' to 'Transparent Conversion'' @ [CHR 0x27],
        ''   - Set 'CAN Baudrate' to 1000000 bps'',
        ''   - Set 'Serial Baudrate' to 57600 bps'',
        ''   - Set 'Serial Data Bit' to 8'',
        ''   - Set 'Serial Stop Bit' to 1'',
        ''   - Set 'Serial Parity Bit' to None'',
        ''   - Set 'CAN ID' to 0x60'',
        ''   - Set 'Frame Type' to Standard Frame'']"
    unfolding empty example_handler_simps str_int_1000000 str_int_57600 format_X_0x60
    by simp
  note ext = printCANConfInstructions_order [of quiet_world extended_handler]
  from ext
  have "take 8 (drop (length (stdout quiet_world) + 4)
          (stdout (printCANConfInstructions extended_handler quiet_world)))
     = [''   - Set 'Working Mode' to 'Transparent Conversion'' @ [CHR 0x27],
        ''   - Set 'CAN Baudrate' to '' @ str_int (can_baudrate extended_handler) @ '' bps'',
        ''   - Set 'Serial Baudrate' to '' @ str_int (baudrate extended_handler) @ '' bps'',
        ''   - Set 'Serial Data Bit' to 8'',
        ''   - Set 'Serial Stop Bit' to 1'',
        ''   - Set 'Serial Parity Bit' to None'',
        ''   - Set 'CAN ID' to 0x'' @ format_X (can_id extended_handler),
        ''   - Set 'Frame Type' to ''
           @ (if extended_id extended_handler then ''Extended Frame'' else ''Standard Frame'')]"
    by (rule conjunct1)
  then have second: "take 8 (drop 4 (stdout (printCANConfInstructions extended_handler quiet_world)))
     = [''   - Set 'Working Mode' to 'Transparent Conversion'' @ [CHR 0x27],
        ''   - Set 'CAN Baudrate' to 500000 bps'',
        ''   - Set 'Serial Baudrate' to 1000000 bps'',
        ''   - Set 'Serial Data Bit' to 8'',
        ''   - Set 'Serial Stop Bit' to 1'',
        ''   - Set 'Serial Parity Bit' to None'',
        ''   - Set 'CAN ID' to 0x18DAF110'',
        ''   - Set 'Frame Type' to Extended Frame'']"
    unfolding empty extended_handler_simps str_int_1000000 str_int_500000 format_X_0x18DAF110
    by simp
  from ext have "is_decimal_of (str_int (can_baudrate extended_handler)) (can_baudrate extended_handler)"
    by (rule conjunct2 [THEN conjunct1])
  then have dec: "is_decimal_of ''500000'' 500000"
    unfolding extended_handler_simps str_int_500000 .
  from ext have "is_hex_of (format_X (can_id extended_handler)) (can_id extended_handler)"
    by (rule conjunct2 [THEN conjunct2, THEN conjunct2, THEN conjunct1])
  then have hex: "is_hex_of ''18DAF110'' 0x18DAF110"
    unfolding extended_handler_simps format_X_0x18DAF110 .
  from first second hex dec show ?thesis by (intro conjI)
qed

section \<open>The receive accumulation buffer\<close>

lemma recv_buffer_writePort: "recv_buffer (fst (snd (writePort s w packet))) = recv_buffer s"
  by (simp add: writePort_def PortHandler_writePort_def
      split: packet.splits result.splits option.splits)

lemma recv_buffer_readPort: "recv_buffer (fst (snd (readPort s w len))) = recv_buffer s"
  by (simp add: readPort_def PortHandler_readPort_def split: option.splits)

lemma recv_buffer_closePort: "recv_buffer (fst (closePort s w)) = recv_buffer s"
  by (simp add: closePort_def)

lemma recv_buffer_setupPort:
  "recv_buffer (fst (snd (setupPort F s w cflag_baud c))) = recv_buffer s"
proof -
  let ?s1 = "fst (closePort s w)" and ?w1 = "snd (closePort s w)"
  have closed: "\<not> is_open ?s1" by (simp add: closePort_def)
  have "recv_buffer (fst (snd (setupPort F ?s1 ?w1 cflag_baud c))) = recv_buffer ?s1"
  proof (cases c)
    case (Granted stale room)
    show ?thesis
    proof (cases "baudrate ?s1 = 0")
      case True
      with closed Granted show ?thesis by (simp add: setupPort_closed_granted_zero)
    next
      case False
      with closed Granted show ?thesis by (simp add: setupPort_closed_granted)
    qed
  next
    case (Refused msg)
    with closed show ?thesis by (simp add: setupPort_refused closePort_def)
  next
    case (Rejected msg)
    with closed show ?thesis by (simp add: setupPort_rejected closePort_def)
  qed
  then show ?thesis
    using setupPort_via_close [of F s w cflag_baud c] by (simp add: recv_buffer_closePort)
qed

lemma recv_buffer_step: "recv_buffer (fst (step F (s, w) x)) = recv_buffer s"
  by (cases x)
     (simp_all add: recv_buffer_writePort recv_buffer_readPort recv_buffer_setupPort
        recv_buffer_closePort setDebug_def)

lemma recv_buffer_run: "recv_buffer (fst (run F sw xs)) = recv_buffer (fst sw)"
proof (induction xs arbitrary: sw)
  case Nil
  show ?case by simp
next
  case (Cons x xs)
  obtain s w where sw: "sw = (s, w)" by (cases sw)
  have "recv_buffer (fst (run F (step F sw x) xs)) = recv_buffer (fst (step F sw x))"
    by (rule Cons.IH)
  also have "\<dots> = recv_buffer (fst sw)"
    by (simp add: sw recv_buffer_step)
  finally show ?case by simp
qed

lemma recv_buffer_init: "recv_buffer (PortHandlerCAN_init F name cid ext cbaud) = []"
  by (simp add: PortHandlerCAN_init_def port_handler.defs port_handler_can.defs)

lemma readPort_from_base: "fst (readPort s w len) = fst (PortHandler_readPort s w len)"
  by (simp add: readPort_def split: prod.splits result.splits)

text \<open>
  Claim C10. The receive accumulation buffer is empty when a handler is constructed,
  every single operation (\<open>writePort\<close>, \<open>readPort\<close>, \<open>setupPort\<close>, \<open>setDebug\<close>,
  \<open>printCANConfInstructions\<close>, and closing) leaves it as it found it, so it is empty
  after any run of operations on a constructed handler; and what \<open>readPort\<close> returns is
  what the base transport's read returns, with nothing taken from or added by the
  buffer.
\<close>

theorem recv_buffer_never_used:
  "recv_buffer (PortHandlerCAN_init F name cid ext cbaud) = []
   \<and> recv_buffer (fst (run F (PortHandlerForWaveshareCAN F name cid ext cbaud dbg, w) ops)) = []
   \<and> recv_buffer (fst (step F (s, w) x)) = recv_buffer s
   \<and> fst (readPort s w len) = fst (PortHandler_readPort s w len)"
  by (simp add: recv_buffer_run recv_buffer_step recv_buffer_init readPort_from_base
      PortHandlerForWaveshareCAN_def setDebug_def)

theorem recv_buffer_never_used_witness:
  "recv_buffer (fst (run exact_arith
      (PortHandlerForWaveshareCAN exact_arith ''/dev/ttyUSB0'' DEFAULT_CAN_ID False 1000000 True,
       quiet_world)
      [OpPrintConf, OpSetup 0 (Granted [0x55] 8), OpWrite (IntList [255, 255, 1, 2, 1, 251]),
       OpRead 6, OpSetDebug False, OpClose, OpRead 1])) = []"
  using recv_buffer_never_used
    [of exact_arith "''/dev/ttyUSB0''" DEFAULT_CAN_ID False 1000000 True quiet_world
        "[OpPrintConf, OpSetup 0 (Granted [0x55] 8), OpWrite (IntList [255, 255, 1, 2, 1, 251]),
          OpRead 6, OpSetDebug False, OpClose, OpRead 1]"]
  by (rule conjunct2 [THEN conjunct1])

end
